theory Spec2Isabelle
  imports Complex_Main
begin

section \<open>The debate orchestrator of debate_ai_foundry.py\<close>

text \<open>
  The module defines one class, \<open>DebateOrchestrator\<close>. Its decision logic is small: the
  result parser of the speaker selection, the termination evaluator
  (\<open>CompletionTerminationStrategy.should_agent_terminate\<close>), the construction of the group
  chat, and \<open>process_conversation\<close>, which drives the chat and yields the status stream.
  The group chat itself, the language-model calls, the clock and the JSON encoder belong
  to libraries; they enter the model as arguments, so every theorem holds for whatever
  they answer.
\<close>

subsection \<open>Exceptions\<close>

text \<open>
  The exceptions the module can raise itself (\<open>IndexError\<close> from \<open>xs[-1]\<close> and \<open>xs[0]\<close>,
  \<open>KeyError\<close> from \<open>m['role']\<close>, \<open>ValueError\<close> from \<open>float\<close>), and \<open>UpstreamError\<close> for
  whatever a library call raises (connectivity, authentication, rate limits).
\<close>

datatype error = IndexError | KeyError | ValueError | UpstreamError string

subsection \<open>Python floats\<close>

text \<open>
  \<open>float(s)\<close> answers a finite double, an infinity or a NaN, or raises \<open>ValueError\<close>.
  Every finite double is a real number and doubles compare as the reals they denote, so a
  finite value is carried as that real. A comparison with a NaN is false.
\<close>

datatype pyfloat = Finite real | PosInf | NegInf | NaN

definition float_ge :: "pyfloat \<Rightarrow> pyfloat \<Rightarrow> bool" where
  "float_ge a b =
     (case a of
        NaN \<Rightarrow> False
      | PosInf \<Rightarrow> (case b of NaN \<Rightarrow> False | _ \<Rightarrow> True)
      | NegInf \<Rightarrow> (case b of NegInf \<Rightarrow> True | _ \<Rightarrow> False)
      | Finite x \<Rightarrow>
          (case b of Finite y \<Rightarrow> y \<le> x | NegInf \<Rightarrow> True | _ \<Rightarrow> False))"

subsection \<open>Messages and agents\<close>

text \<open>
  \<open>ChatMessageContent\<close>: the role (the value of \<open>AuthorRole\<close>), the optional author name
  and the text.
\<close>

record message =
  role :: string
  name :: "string option"
  content :: string

text \<open>An agent as the module uses it: the identity, \<open>agent.name\<close> and \<open>agent.description\<close>.\<close>

record agent =
  agent_id :: string
  agent_name :: string
  description :: string

text \<open>Python's \<open>xs[-1]\<close>: the last element, \<open>IndexError\<close> on the empty list.\<close>

definition last_item :: "'a list \<Rightarrow> error + 'a" where
  "last_item xs = (case xs of [] \<Rightarrow> Inl IndexError | _ # _ \<Rightarrow> Inr (last xs))"

subsection \<open>The termination strategy\<close>

text \<open>
  \<open>CompletionTerminationStrategy\<close>: the fields \<open>agents\<close> and \<open>maximum_iterations\<close> given to
  the constructor, and the counter \<open>iteration\<close>, a pydantic field with default 0.
  Python's integers are unbounded.
\<close>

record completion_termination_strategy =
  agents :: "agent list"
  maximum_iterations :: int
  iteration :: int

definition create_termination_strategy :: "agent list \<Rightarrow> int \<Rightarrow> completion_termination_strategy" where
  "create_termination_strategy ags maxit =
     \<lparr>agents = ags, maximum_iterations = maxit, iteration = 0\<rparr>"

text \<open>
  The four calls of the logger in \<open>should_agent_terminate\<close>, in the order they are made:
  \<open>Iteration: i of m\<close>, \<open>Critic Evaluation: r\<close>, \<open>Should terminate error: ...\<close> and
  \<open>Should terminate: b\<close>.
\<close>

datatype log_record =
    LogIteration int int
  | LogCriticEvaluation string
  | LogShouldTerminateError
  | LogShouldTerminate bool

text \<open>
  \<open>should_agent_terminate(self, agent, history)\<close>. The first argument stands for
  \<open>self.kernel.invoke\<close> on the extraction prompt: from the evaluation text to
  \<open>str(res_val)\<close>, or the exception the call raises. The second stands for \<open>float\<close>.
  The result is the strategy after the call, the log records written, and the value
  returned or the exception raised. Only \<open>ValueError\<close> is caught.
\<close>

definition should_agent_terminate ::
  "(string \<Rightarrow> error + string) \<Rightarrow> (string \<Rightarrow> error + pyfloat) \<Rightarrow>
   completion_termination_strategy \<Rightarrow> agent \<Rightarrow> message list \<Rightarrow>
   completion_termination_strategy \<times> log_record list \<times> (error + bool)"
where
  "should_agent_terminate invoke to_float self ag history =
     (let self1 = self\<lparr>iteration := iteration self + 1\<rparr>;
          log1 = [LogIteration (iteration self1) (maximum_iterations self1)]
      in case last_item history of
           Inl e \<Rightarrow> (self1, log1, Inl e)
         | Inr latest \<Rightarrow>
             (case invoke (content latest) of
                Inl e \<Rightarrow> (self1, log1, Inl e)
              | Inr res_val \<Rightarrow>
                  (let log2 = log1 @ [LogCriticEvaluation res_val]
                   in case to_float res_val of
                        Inr score \<Rightarrow>
                          (let should_terminate = float_ge score (Finite 8)
                           in (self1, log2 @ [LogShouldTerminate should_terminate],
                               Inr should_terminate))
                      | Inl ValueError \<Rightarrow>
                          (self1,
                           log2 @ [LogShouldTerminateError, LogShouldTerminate False],
                           Inr False)
                      | Inl e \<Rightarrow> (self1, log2, Inl e))))"

text \<open>
  The group chat does not call \<open>should_agent_terminate\<close> directly: it calls
  \<open>should_terminate\<close>, which the class inherits from the framework's
  \<open>TerminationStrategy\<close> (imported at the top of the module, not overridden). The docstring
  of \<open>create_termination_strategy\<close> describes \<open>agents\<close> as the ``list of agents that can
  trigger termination evaluation'': for an agent outside a non-empty list the inherited
  method answers \<open>False\<close> and does not run \<open>should_agent_terminate\<close>. Agents are compared
  by identity.
\<close>

definition should_terminate ::
  "(string \<Rightarrow> error + string) \<Rightarrow> (string \<Rightarrow> error + pyfloat) \<Rightarrow>
   completion_termination_strategy \<Rightarrow> agent \<Rightarrow> message list \<Rightarrow>
   completion_termination_strategy \<times> log_record list \<times> (error + bool)"
where
  "should_terminate invoke to_float self ag history =
     (if agents self \<noteq> [] \<and> agent_id ag \<notin> set (map agent_id (agents self))
      then (self, [], Inr False)
      else should_agent_terminate invoke to_float self ag history)"

subsection \<open>The selection strategy\<close>

text \<open>
  \<open>parse_selection_output(output)\<close>, the result parser closed over \<open>default_agent\<close>. The
  argument is \<open>output.value\<close>: \<open>None\<close>, or the list of messages the selection prompt
  answered. \<open>output.value[0]\<close> raises \<open>IndexError\<close> on an empty list.
\<close>

definition parse_selection_output :: "agent \<Rightarrow> message list option \<Rightarrow> error + string" where
  "parse_selection_output default_agent output_value =
     (case output_value of
        Some v \<Rightarrow> (case v of [] \<Rightarrow> Inl IndexError | first # _ \<Rightarrow> Inr (content first))
      | None \<Rightarrow> Inr (agent_name default_agent))"

text \<open>\<open>"\n".join(lines)\<close>.\<close>

primrec join_lines :: "string list \<Rightarrow> string" where
  "join_lines [] = []"
| "join_lines (l # ls) = (if ls = [] then l else l @ [CHR 0x0A] @ join_lines ls)"

text \<open>
  \<open>KernelFunctionSelectionStrategy\<close> as \<open>create_selection_strategy\<close> builds it: the agent
  definitions rendered into the prompt, and the result parser.
\<close>

record kernel_function_selection_strategy =
  definitions :: string
  result_parser :: "message list option \<Rightarrow> error + string"

definition create_selection_strategy ::
  "agent list \<Rightarrow> agent \<Rightarrow> kernel_function_selection_strategy"
where
  "create_selection_strategy ags default_agent =
     \<lparr>definitions = join_lines (map (\<lambda>a. agent_name a @ '': '' @ description a) ags),
      result_parser = parse_selection_output default_agent\<rparr>"

subsection \<open>The group chat\<close>

record agent_group_chat =
  chat_agents :: "agent list"
  selection_strategy :: kernel_function_selection_strategy
  termination_strategy :: completion_termination_strategy

text \<open>
  \<open>create_agent_group_chat\<close>. The two arguments are what loading \<open>agents/writer.yaml\<close> and
  \<open>agents/critic.yaml\<close> gives: the agent, or the exception raised. The writer is loaded
  first.
\<close>

definition create_agent_group_chat :: "error + agent \<Rightarrow> error + agent \<Rightarrow> error + agent_group_chat" where
  "create_agent_group_chat load_writer load_critic =
     (case load_writer of
        Inl e \<Rightarrow> Inl e
      | Inr writer \<Rightarrow>
          (case load_critic of
             Inl e \<Rightarrow> Inl e
           | Inr critic \<Rightarrow>
               (let ags = [writer, critic]
                in Inr \<lparr>chat_agents = ags,
                        selection_strategy = create_selection_strategy ags critic,
                        termination_strategy = create_termination_strategy [critic] 6\<rparr>)))"

subsection \<open>The session identifier\<close>

text \<open>What \<open>datetime.datetime.now()\<close> reads from the clock.\<close>

record datetime =
  year :: nat
  month :: nat
  day :: nat
  hour :: nat
  minute :: nat
  second :: nat
  microsecond :: nat

definition digit :: "nat \<Rightarrow> char" where
  "digit d = ''0123456789'' ! (d mod 10)"

definition two_digits :: "nat \<Rightarrow> string" where
  "two_digits n = [digit (n div 10), digit n]"

definition four_digits :: "nat \<Rightarrow> string" where
  "four_digits n = [digit (n div 1000), digit (n div 100), digit (n div 10), digit n]"

text \<open>
  \<open>strftime("%Y-%m-%d_%H:%M:%S")\<close>: the year in four digits (a \<open>datetime\<close> has a year of at
  most 9999), the other fields in two. The microseconds are not printed.
\<close>

definition strftime :: "datetime \<Rightarrow> string" where
  "strftime t =
     four_digits (year t) @ ''-'' @ two_digits (month t) @ ''-'' @ two_digits (day t) @ ''_''
       @ two_digits (hour t) @ '':'' @ two_digits (minute t) @ '':'' @ two_digits (second t)"

text \<open>\<open>session_id = f"{user_id}-{current_time}"\<close>.\<close>

definition session_id :: "string \<Rightarrow> datetime \<Rightarrow> string" where
  "session_id user_id current_time = user_id @ ''-'' @ strftime current_time"

subsection \<open>Running the conversation\<close>

text \<open>
  The chat history seeded from \<open>conversation_messages\<close>, a list of dictionaries: the
  entries whose role is \<open>assistant\<close> or \<open>user\<close>, in order. \<open>m['role']\<close> raises \<open>KeyError\<close> on
  a dictionary without the key; \<open>d.get\<close> answers \<open>None\<close>, and a message built with no
  content has the empty text.
\<close>

primrec load_chat_history :: "(string \<rightharpoonup> string) list \<Rightarrow> error + message list" where
  "load_chat_history [] = Inr []"
| "load_chat_history (m # ms) =
     (case m ''role'' of
        None \<Rightarrow> Inl KeyError
      | Some r \<Rightarrow>
          (case load_chat_history ms of
             Inl e \<Rightarrow> Inl e
           | Inr rest \<Rightarrow>
               (if r = ''assistant'' \<or> r = ''user''
                then Inr (\<lparr>role = r, name = m ''name'',
                           content = (case m ''content'' of None \<Rightarrow> [] | Some c \<Rightarrow> c)\<rparr> # rest)
                else Inr rest)))"

text \<open>
  What the generator yields. Both kinds are strings in Python; the module tells them
  apart by their form (``plain text to indicate that it is a status update'', ``formatted
  as JSON to indicate the final response''), and the model by the \<open>yield\<close> statement they
  come from.
\<close>

datatype event = StatusUpdate string | FinalResponse string

text \<open>
  The libraries \<open>process_conversation\<close> talks to, for one run:
  \<^item> the two agent loaders and the clock;
  \<^item> \<open>chat_invoke\<close>: \<open>agent_group_chat.invoke()\<close> on the chat seeded with the given
    history: the messages it yields, and the exception that ends it, if one does;
  \<^item> \<open>describe_next_action\<close> on the messages collected so far;
  \<^item> \<open>get_chat_messages\<close>: what \<open>agent_group_chat.get_chat_messages()\<close> yields after the
    run, in the order it yields it;
  \<^item> \<open>json_dumps\<close>: \<open>json.dumps(r.to_dict())\<close>.
\<close>

record collaborators =
  load_writer :: "error + agent"
  load_critic :: "error + agent"
  now :: datetime
  chat_invoke :: "message list \<Rightarrow> message list \<times> error option"
  describe_next_action :: "message list \<Rightarrow> error + string"
  get_chat_messages :: "message list \<Rightarrow> message list"
  json_dumps :: "message \<Rightarrow> string"

text \<open>
  The body of \<open>async for a in agent_group_chat.invoke()\<close>: the message is appended to
  \<open>messages\<close>, the next action is described and yielded. An exception of
  \<open>describe_next_action\<close> ends the loop with what was yielded before.
\<close>

primrec status_updates ::
  "(message list \<Rightarrow> error + string) \<Rightarrow> message list \<Rightarrow> message list \<Rightarrow> event list \<times> error option"
where
  "status_updates describe [] messages = ([], None)"
| "status_updates describe (a # rest) messages =
     (case describe (messages @ [a]) of
        Inl e \<Rightarrow> ([], Some e)
      | Inr next_action \<Rightarrow>
          (case status_updates describe rest (messages @ [a]) of
             (later, stopped) \<Rightarrow> (StatusUpdate next_action # later, stopped)))"

text \<open>
  One run of the generator, consumed to its end: the tracing spans opened, the events
  yielded in order, and the exception that ended it, if one did.
\<close>

record outcome =
  spans :: "string list"
  yielded :: "event list"
  raised :: "error option"

definition process_conversation ::
  "collaborators \<Rightarrow> string \<Rightarrow> (string \<rightharpoonup> string) list \<Rightarrow> outcome"
where
  "process_conversation env user_id conversation_messages =
     (case create_agent_group_chat (load_writer env) (load_critic env) of
        Inl e \<Rightarrow> \<lparr>spans = [], yielded = [], raised = Some e\<rparr>
      | Inr chat \<Rightarrow>
          (case load_chat_history conversation_messages of
             Inl e \<Rightarrow> \<lparr>spans = [], yielded = [], raised = Some e\<rparr>
           | Inr chat_history \<Rightarrow>
               (let session = session_id user_id (now env);
                    started = [StatusUpdate ''WRITER: Prepares the initial draft''];
                    produced = chat_invoke env chat_history;
                    updates = status_updates (describe_next_action env) (fst produced) []
                in case snd updates of
                     Some e \<Rightarrow>
                       \<lparr>spans = [session], yielded = started @ fst updates, raised = Some e\<rparr>
                   | None \<Rightarrow>
                       (case snd produced of
                          Some e \<Rightarrow>
                            \<lparr>spans = [session], yielded = started @ fst updates,
                             raised = Some e\<rparr>
                        | None \<Rightarrow>
                            (let response = rev (get_chat_messages env chat_history)
                             in case last_item (filter (\<lambda>r. name r = Some ''Writer'') response) of
                                  Inl e \<Rightarrow>
                                    \<lparr>spans = [session], yielded = started @ fst updates,
                                     raised = Some e\<rparr>
                                | Inr reply \<Rightarrow>
                                    \<lparr>spans = [session],
                                     yielded = started @ fst updates
                                       @ [FinalResponse (json_dumps env reply)],
                                     raised = None\<rparr>)))))"

text \<open>
  The spec's words for the result: History scanned in reverse chronological order, the
  first turn authored by the producer found.
\<close>

definition most_recent_producer_turn :: "message list \<Rightarrow> message option" where
  "most_recent_producer_turn history = List.find (\<lambda>t. name t = Some ''Writer'') (rev history)"

subsection \<open>The debate loop\<close>





subsection \<open>Concrete inputs\<close>

text \<open>
  The inputs the examples below run on: the two agents of the reference scenario, a
  draft and a critique, and \<open>float\<close> on the texts the examples use (\<open>float("9")\<close> is
  \<open>9.0\<close>, \<open>float("7")\<close> is \<open>7.0\<close>, and a sentence is not a float literal).
\<close>

definition writer0 :: agent where
  "writer0 = \<lparr>agent_id = ''agent-1'', agent_name = ''Writer'', description = ''Writes the draft''\<rparr>"

definition critic0 :: agent where
  "critic0 = \<lparr>agent_id = ''agent-2'', agent_name = ''Critic'', description = ''Scores the draft''\<rparr>"

definition draft0 :: message where
  "draft0 = \<lparr>role = ''assistant'', name = Some ''Writer'', content = ''First draft''\<rparr>"

definition critique0 :: message where
  "critique0 = \<lparr>role = ''assistant'', name = Some ''Critic'', content = ''Solid, 7/10''\<rparr>"

definition float0 :: "string \<Rightarrow> error + pyfloat" where
  "float0 s =
     (if s = ''9'' then Inr (Finite 9)
      else if s = ''7'' then Inr (Finite 7)
      else Inl ValueError)"

text \<open>Two readings of the clock within the same second.\<close>

definition time1 :: datetime where
  "time1 = \<lparr>year = 2025, month = 1, day = 2, hour = 12, minute = 30, second = 5,
            microsecond = 100000\<rparr>"

definition time2 :: datetime where
  "time2 = \<lparr>year = 2025, month = 1, day = 2, hour = 12, minute = 30, second = 5,
            microsecond = 900000\<rparr>"

text \<open>
  A run of two turns, a draft and its critique, on a chat that yields its messages
  newest first; and the same run on a chat in which only the critic spoke.
\<close>

definition env0 :: collaborators where
  "env0 =
     \<lparr>load_writer = Inr writer0, load_critic = Inr critic0, now = time1,
      chat_invoke = (\<lambda>chat_history. ([draft0, critique0], None)),
      describe_next_action =
        (\<lambda>messages. if length messages = 1 then Inr ''CRITIC: Reviews the draft''
                     else Inr ''WRITER: Revises the draft''),
      get_chat_messages = (\<lambda>chat_history. rev (chat_history @ [draft0, critique0])),
      json_dumps = (\<lambda>m. ''{'' @ content m @ ''}'')\<rparr>"

definition env1 :: collaborators where
  "env1 =
     env0\<lparr>chat_invoke := (\<lambda>chat_history. ([critique0], None)),
          get_chat_messages := (\<lambda>chat_history. rev (chat_history @ [critique0]))\<rparr>"

text \<open>
  A longer run: a request seeded from the caller's conversation (the system entry is
  filtered out), then two rounds of draft and critique.
\<close>

definition draft1 :: message where
  "draft1 = \<lparr>role = ''assistant'', name = Some ''Writer'', content = ''Second draft''\<rparr>"

definition critique1 :: message where
  "critique1 = \<lparr>role = ''assistant'', name = Some ''Critic'', content = ''Better, 9/10''\<rparr>"

definition request0 :: "(string \<rightharpoonup> string) list" where
  "request0 = [[''role'' \<mapsto> ''system'', ''content'' \<mapsto> ''Be brief''],
               [''role'' \<mapsto> ''user'', ''name'' \<mapsto> ''alice'', ''content'' \<mapsto> ''Write a slogan'']]"

definition ask0 :: message where
  "ask0 = \<lparr>role = ''user'', name = Some ''alice'', content = ''Write a slogan''\<rparr>"

definition env2 :: collaborators where
  "env2 =
     env0\<lparr>chat_invoke := (\<lambda>chat_history. ([draft0, critique0, draft1, critique1], None)),
          get_chat_messages :=
            (\<lambda>chat_history. rev (chat_history @ [draft0, critique0, draft1, critique1]))\<rparr>"




section \<open>The termination evaluator\<close>

lemma last_item_snoc: "last_item (pre @ [m]) = Inr m"
  by (cases pre) (simp_all add: last_item_def)

text \<open>
  C2. Whenever a score is extracted from the latest turn, that is, the history is not
  empty, the extraction call answers a text and \<open>float\<close> reads it as the value \<open>score\<close>,
  the evaluator returns normally, and what it returns is true exactly when
  \<open>score >= 8.0\<close>.
\<close>

theorem should_agent_terminate_threshold:
  assumes "history = pre @ [latest]"
    and "invoke (content latest) = Inr res_val"
    and "to_float res_val = Inr score"
  shows "snd (snd (should_agent_terminate invoke to_float self ag history))
           = Inr (float_ge score (Finite 8))"
  using assms by (simp add: should_agent_terminate_def last_item_snoc Let_def)

theorem should_agent_terminate_threshold_witness:
  "[draft0, critique0] = [draft0] @ [critique0]
   \<and> float0 ''9'' = Inr (Finite 9) \<and> float0 ''7'' = Inr (Finite 7)
   \<and> snd (snd (should_agent_terminate (\<lambda>_. Inr ''9'') float0
         (create_termination_strategy [critic0] 6) critic0 [draft0, critique0])) = Inr True
   \<and> snd (snd (should_agent_terminate (\<lambda>_. Inr ''7'') float0
         (create_termination_strategy [critic0] 6) critic0 [draft0, critique0])) = Inr False"
  using should_agent_terminate_threshold
      [of "[draft0, critique0]" "[draft0]" critique0 "\<lambda>_. Inr ''9''" "''9''" float0 "Finite 9"
          "create_termination_strategy [critic0] 6" critic0]
    should_agent_terminate_threshold
      [of "[draft0, critique0]" "[draft0]" critique0 "\<lambda>_. Inr ''7''" "''7''" float0 "Finite 7"
          "create_termination_strategy [critic0] 6" critic0]
  by (simp add: float0_def float_ge_def)

text \<open>
  C3. When the extraction call answers a text that \<open>float\<close> rejects with \<open>ValueError\<close>,
  the evaluator does not raise: it returns \<open>False\<close>, and logs the error before the
  decision.
\<close>

theorem should_agent_terminate_unparseable:
  assumes "history = pre @ [latest]"
    and "invoke (content latest) = Inr res_val"
    and "to_float res_val = Inl ValueError"
  shows "snd (should_agent_terminate invoke to_float self ag history)
           = ([LogIteration (iteration self + 1) (maximum_iterations self),
               LogCriticEvaluation res_val, LogShouldTerminateError, LogShouldTerminate False],
              Inr False)"
  using assms by (simp add: should_agent_terminate_def last_item_snoc Let_def)

theorem should_agent_terminate_unparseable_witness:
  "[critique0] = [] @ [critique0]
   \<and> float0 ''Great work, no score given.'' = Inl ValueError
   \<and> snd (snd (should_agent_terminate (\<lambda>_. Inr ''Great work, no score given.'') float0
         (create_termination_strategy [critic0] 6) critic0 [critique0])) = Inr False"
  using should_agent_terminate_unparseable
      [of "[critique0]" "[]" critique0 "\<lambda>_. Inr ''Great work, no score given.''"
          "''Great work, no score given.''" float0
          "create_termination_strategy [critic0] 6" critic0]
  by (simp add: float0_def)

text \<open>
  C4. Every invocation adds exactly 1 to the counter, whatever else happens in it (the
  history may be empty, the extraction call may raise, the score may or may not parse),
  and the counter is incremented first: the first record logged, before the extraction
  and the decision, already shows the new value.
\<close>

theorem should_agent_terminate_increments:
  "iteration (fst (should_agent_terminate invoke to_float self ag history)) = iteration self + 1
   \<and> take 1 (fst (snd (should_agent_terminate invoke to_float self ag history)))
       = [LogIteration (iteration self + 1) (maximum_iterations self)]"
  by (simp add: should_agent_terminate_def Let_def split: sum.splits error.splits)

text \<open>
  The evaluator logs the counter and the maximum and never compares them: what it
  answers is the same whatever they are.
\<close>

lemma evaluator_ignores_counter:
  "(case create_agent_group_chat (Inr writer) (Inr critic) of
      Inl e \<Rightarrow> False
    | Inr chat \<Rightarrow>
        maximum_iterations (termination_strategy chat) = 6
        \<and> iteration (termination_strategy chat) = 0)
   \<and> snd (snd (should_agent_terminate invoke to_float
         (self\<lparr>iteration := i, maximum_iterations := m\<rparr>) ag history))
     = snd (snd (should_agent_terminate invoke to_float self ag history))"
  by (simp add: create_agent_group_chat_def create_termination_strategy_def
      should_agent_terminate_def Let_def split: sum.splits error.splits)

text \<open>
  C10. The chat built by \<open>create_agent_group_chat\<close> registers the termination strategy with
  the critic alone. While the strategy's agents are that list, a turn of the writer (an
  agent with another identity) does not reach \<open>should_agent_terminate\<close>: the strategy is
  returned as it was (the counter is not incremented), nothing is logged or extracted, and
  the answer is \<open>False\<close>. A turn of the critic is evaluated.
\<close>

theorem writer_turn_out_of_scope:
  assumes "agent_id writer \<noteq> agent_id critic"
    and "create_agent_group_chat (Inr writer) (Inr critic) = Inr chat"
    and "agents self = agents (termination_strategy chat)"
  shows "agents (termination_strategy chat) = [critic]
    \<and> should_terminate invoke to_float self writer history = (self, [], Inr False)
    \<and> should_terminate invoke to_float self critic history
        = should_agent_terminate invoke to_float self critic history"
proof -
  from assms(2) have ts: "termination_strategy chat = create_termination_strategy [critic] 6"
    by (auto simp add: create_agent_group_chat_def Let_def)
  then have ags: "agents self = [critic]"
    using assms(3) by (simp add: create_termination_strategy_def)
  have "agents (termination_strategy chat) = [critic]"
    using ts by (simp add: create_termination_strategy_def)
  moreover have "should_terminate invoke to_float self writer history = (self, [], Inr False)"
    using ags assms(1) by (simp add: should_terminate_def)
  moreover have "should_terminate invoke to_float self critic history
      = should_agent_terminate invoke to_float self critic history"
    using ags by (simp add: should_terminate_def)
  ultimately show ?thesis by simp
qed

theorem writer_turn_out_of_scope_witness:
  "agent_id writer0 \<noteq> agent_id critic0
   \<and> create_agent_group_chat (Inr writer0) (Inr critic0)
       = Inr \<lparr>chat_agents = [writer0, critic0],
              selection_strategy = create_selection_strategy [writer0, critic0] critic0,
              termination_strategy = create_termination_strategy [critic0] 6\<rparr>
   \<and> should_terminate (\<lambda>_. Inr ''9'') float0 (create_termination_strategy [critic0] 6)
         writer0 [draft0]
       = (create_termination_strategy [critic0] 6, [], Inr False)"
proof -
  have h1: "agent_id writer0 \<noteq> agent_id critic0"
    by (simp add: writer0_def critic0_def)
  have h2: "create_agent_group_chat (Inr writer0) (Inr critic0)
       = Inr \<lparr>chat_agents = [writer0, critic0],
              selection_strategy = create_selection_strategy [writer0, critic0] critic0,
              termination_strategy = create_termination_strategy [critic0] 6\<rparr>"
    by (simp add: create_agent_group_chat_def Let_def)
  have h3: "agents (create_termination_strategy [critic0] 6)
       = agents (termination_strategy
           \<lparr>chat_agents = [writer0, critic0],
            selection_strategy = create_selection_strategy [writer0, critic0] critic0,
            termination_strategy = create_termination_strategy [critic0] 6\<rparr>)"
    by simp
  from writer_turn_out_of_scope [OF h1 h2 h3, of "\<lambda>_. Inr ''9''" float0 "[draft0]"]
  have "should_terminate (\<lambda>_. Inr ''9'') float0 (create_termination_strategy [critic0] 6)
         writer0 [draft0]
       = (create_termination_strategy [critic0] 6, [], Inr False)"
    by blast
  with h1 h2 show ?thesis by blast
qed

section \<open>The debate loop\<close>








section \<open>The speaker selection\<close>

text \<open>
  C1. In the chat built by \<open>create_agent_group_chat\<close>, the result parser answers the name
  of the default agent, the critic, which is in the roster, when the selection result has
  no value (\<open>None\<close>); when it has a list of messages, the parser answers the text of the
  first one as it is, whether or not that text names an agent of the roster.
\<close>

theorem selection_fallback:
  "(case create_agent_group_chat (Inr writer) (Inr critic) of
      Inl e \<Rightarrow> False
    | Inr chat \<Rightarrow>
        result_parser (selection_strategy chat) None = Inr (agent_name critic)
        \<and> agent_name critic \<in> set (map agent_name (chat_agents chat))
        \<and> result_parser (selection_strategy chat) (Some (first # others)) = Inr (content first))"
  by (simp add: create_agent_group_chat_def create_selection_strategy_def
      parse_selection_output_def)

text \<open>
  The claim as the spec states it (an unparseable or empty output falls back to the
  default, never a name outside the roster) fails: on the output \<open>Bob\<close> the parser answers
  \<open>Bob\<close>, and on the empty text it answers the empty text.
\<close>

theorem parse_selection_output_unknown_name:
  "parse_selection_output critic0
       (Some [\<lparr>role = ''assistant'', name = None, content = ''Bob''\<rparr>]) = Inr ''Bob''
   \<and> ''Bob'' \<notin> set (map agent_name [writer0, critic0])
   \<and> parse_selection_output critic0
       (Some [\<lparr>role = ''assistant'', name = None, content = ''''\<rparr>]) = Inr ''''
   \<and> '''' \<notin> set (map agent_name [writer0, critic0])"
  by (simp add: parse_selection_output_def writer0_def critic0_def)

section \<open>The session identifier\<close>

text \<open>
  C9. The identifier is the caller's identity and the clock reading, printed to the
  second. Two sessions of one caller that start within the same second, at different
  instants, get the same identifier, and both runs open their tracing span under it.
\<close>

theorem session_id_collision:
  "session_id ''alice'' time1 = ''alice-2025-01-02_12:30:05''
   \<and> session_id ''alice'' time2 = ''alice-2025-01-02_12:30:05''
   \<and> time1 \<noteq> time2
   \<and> spans (process_conversation (env0\<lparr>now := time1\<rparr>) ''alice'' [])
       = [''alice-2025-01-02_12:30:05'']
   \<and> spans (process_conversation (env0\<lparr>now := time2\<rparr>) ''alice'' [])
       = [''alice-2025-01-02_12:30:05'']"
  by (simp add: process_conversation_def env0_def create_agent_group_chat_def Let_def
      last_item_def draft0_def critique0_def session_id_def strftime_def four_digits_def
      two_digits_def digit_def time1_def time2_def)

section \<open>The conversation\<close>

lemma status_updates_shape:
  "\<exists>texts. fst (status_updates describe turns messages) = map StatusUpdate texts
     \<and> (snd (status_updates describe turns messages) = None \<longrightarrow> length texts = length turns)"
proof (induction turns arbitrary: messages)
  case Nil
  show ?case by simp
next
  case (Cons a rest)
  show ?case
  proof (cases "describe (messages @ [a])")
    case (Inl e)
    then show ?thesis by simp
  next
    case (Inr next_action)
    from Cons.IH [of "messages @ [a]"] obtain texts where
      t: "fst (status_updates describe rest (messages @ [a])) = map StatusUpdate texts"
        "snd (status_updates describe rest (messages @ [a])) = None \<longrightarrow> length texts = length rest"
      by auto
    have "fst (status_updates describe (a # rest) messages) = map StatusUpdate (next_action # texts)"
      using Inr t(1) by (auto split: prod.splits)
    moreover have "snd (status_updates describe (a # rest) messages) = None
        \<longrightarrow> length (next_action # texts) = length (a # rest)"
      using Inr t(2) by (auto split: prod.splits)
    ultimately show ?thesis by (intro exI [of _ "next_action # texts"] conjI)
  qed
qed

lemma last_item_filter_rev:
  "last_item (filter P (rev xs)) = (case List.find P xs of None \<Rightarrow> Inl IndexError | Some x \<Rightarrow> Inr x)"
proof (induction xs)
  case Nil
  show ?case by (simp add: last_item_def)
next
  case (Cons x xs)
  show ?case
  proof (cases "P x")
    case True
    then show ?thesis by (simp add: last_item_snoc)
  next
    case False
    then show ?thesis using Cons.IH by simp
  qed
qed

lemma process_conversation_success:
  assumes "raised (process_conversation env user_id conversation_messages) = None"
  shows "\<exists>chat_history reply.
      load_chat_history conversation_messages = Inr chat_history
      \<and> snd (status_updates (describe_next_action env) (fst (chat_invoke env chat_history)) []) = None
      \<and> List.find (\<lambda>r. name r = Some ''Writer'') (get_chat_messages env chat_history) = Some reply
      \<and> yielded (process_conversation env user_id conversation_messages)
          = StatusUpdate ''WRITER: Prepares the initial draft''
            # fst (status_updates (describe_next_action env) (fst (chat_invoke env chat_history)) [])
            @ [FinalResponse (json_dumps env reply)]"
  using assms
  by (auto simp add: process_conversation_def Let_def last_item_filter_rev
      split: sum.splits option.splits)

lemma env0_run:
  "process_conversation env0 ''alice'' []
     = \<lparr>spans = [''alice-2025-01-02_12:30:05''],
        yielded = [StatusUpdate ''WRITER: Prepares the initial draft'',
                   StatusUpdate ''CRITIC: Reviews the draft'',
                   StatusUpdate ''WRITER: Revises the draft'',
                   FinalResponse ''{First draft}''],
        raised = None\<rparr>"
  by (simp add: process_conversation_def env0_def create_agent_group_chat_def Let_def
      last_item_def draft0_def critique0_def session_id_def strftime_def four_digits_def
      two_digits_def digit_def time1_def)

lemma find_rev_last:
  assumes "\<forall>z \<in> set zs. \<not> P z" and "P x"
  shows "List.find P (rev (ys @ x # zs)) = Some x"
proof -
  have "List.find P (rev zs @ x # rev ys) = Some x"
    using assms(1)
  proof (induction zs rule: rev_induct)
    case Nil
    show ?case using assms(2) by simp
  next
    case (snoc z zs)
    then show ?case by simp
  qed
  then show ?thesis by simp
qed

text \<open>
  C6. The chat keeps its history in the order the turns were made and yields it newest
  first. Whenever the chat has been built, the debate has run to its end without a
  failure of a library call, and the history holds a turn authored by the Writer, the run
  ends normally, and its last event is the final response: the JSON of the most recent
  such turn, the one no later Writer turn follows, whatever turns of other authors come
  after it.
\<close>

theorem process_conversation_returns_last_writer:
  assumes "create_agent_group_chat (load_writer env) (load_critic env) = Inr chat"
    and "load_chat_history conversation_messages = Inr chat_history"
    and "chat_invoke env chat_history = (turns, None)"
    and "snd (status_updates (describe_next_action env) turns []) = None"
    and "get_chat_messages env chat_history = rev history"
    and "\<exists>t \<in> set history. name t = Some ''Writer''"
  shows "\<exists>pre reply post.
      history = pre @ reply # post
      \<and> name reply = Some ''Writer''
      \<and> (\<forall>t \<in> set post. name t \<noteq> Some ''Writer'')
      \<and> most_recent_producer_turn history = Some reply
      \<and> raised (process_conversation env user_id conversation_messages) = None
      \<and> yielded (process_conversation env user_id conversation_messages) \<noteq> []
      \<and> last (yielded (process_conversation env user_id conversation_messages))
          = FinalResponse (json_dumps env reply)"
proof -
  from split_list_last_prop [OF assms(6)] obtain pre reply post where
    d: "history = pre @ reply # post" and w: "name reply = Some ''Writer''"
    and n: "\<forall>t \<in> set post. name t \<noteq> Some ''Writer''"
    by blast
  have f: "List.find (\<lambda>r. name r = Some ''Writer'') (rev history) = Some reply"
    unfolding d using n w by (intro find_rev_last) auto
  have m: "most_recent_producer_turn history = Some reply"
    using f by (simp add: most_recent_producer_turn_def)
  have l: "last_item (filter (\<lambda>r. name r = Some ''Writer'') (rev (get_chat_messages env chat_history)))
      = Inr reply"
    unfolding assms(5) last_item_filter_rev f by simp
  have run: "process_conversation env user_id conversation_messages
      = \<lparr>spans = [session_id user_id (now env)],
         yielded = [StatusUpdate ''WRITER: Prepares the initial draft'']
           @ fst (status_updates (describe_next_action env) turns [])
           @ [FinalResponse (json_dumps env reply)],
         raised = None\<rparr>"
    using assms(1-4) l by (simp add: process_conversation_def Let_def)
  have "raised (process_conversation env user_id conversation_messages) = None"
    unfolding run by simp
  moreover have "yielded (process_conversation env user_id conversation_messages) \<noteq> []"
    unfolding run by simp
  moreover have "last (yielded (process_conversation env user_id conversation_messages))
      = FinalResponse (json_dumps env reply)"
    unfolding run by simp
  ultimately show ?thesis
    using d w n m by (intro exI [of _ pre] exI [of _ reply] exI [of _ post]) simp
qed

text \<open>
  An instance: a seeded request and two rounds of draft and critique. The history ends
  with the second critique, and the second draft is returned.
\<close>

theorem process_conversation_returns_last_writer_witness:
  "create_agent_group_chat (load_writer env2) (load_critic env2)
       = Inr \<lparr>chat_agents = [writer0, critic0],
              selection_strategy = create_selection_strategy [writer0, critic0] critic0,
              termination_strategy = create_termination_strategy [critic0] 6\<rparr>
   \<and> load_chat_history request0 = Inr [ask0]
   \<and> chat_invoke env2 [ask0] = ([draft0, critique0, draft1, critique1], None)
   \<and> get_chat_messages env2 [ask0] = rev [ask0, draft0, critique0, draft1, critique1]
   \<and> name draft0 = Some ''Writer''
   \<and> last [ask0, draft0, critique0, draft1, critique1] = critique1
   \<and> most_recent_producer_turn [ask0, draft0, critique0, draft1, critique1] = Some draft1
   \<and> raised (process_conversation env2 ''alice'' request0) = None
   \<and> last (yielded (process_conversation env2 ''alice'' request0))
       = FinalResponse (json_dumps env2 draft1)"
proof -
  have h1: "create_agent_group_chat (load_writer env2) (load_critic env2)
       = Inr \<lparr>chat_agents = [writer0, critic0],
              selection_strategy = create_selection_strategy [writer0, critic0] critic0,
              termination_strategy = create_termination_strategy [critic0] 6\<rparr>"
    by (simp add: create_agent_group_chat_def env2_def env0_def Let_def)
  have h2: "load_chat_history request0 = Inr [ask0]"
    by (simp add: request0_def ask0_def)
  have h3: "chat_invoke env2 [ask0] = ([draft0, critique0, draft1, critique1], None)"
    by (simp add: env2_def env0_def)
  have h4: "snd (status_updates (describe_next_action env2)
        [draft0, critique0, draft1, critique1] []) = None"
    by (simp add: env2_def env0_def)
  have h5: "get_chat_messages env2 [ask0] = rev [ask0, draft0, critique0, draft1, critique1]"
    by (simp add: env2_def env0_def)
  have w: "name draft0 = Some ''Writer''" by (simp add: draft0_def)
  have h6: "\<exists>t \<in> set [ask0, draft0, critique0, draft1, critique1]. name t = Some ''Writer''"
    using w by simp
  have m: "most_recent_producer_turn [ask0, draft0, critique0, draft1, critique1] = Some draft1"
    by (simp add: most_recent_producer_turn_def draft1_def critique1_def)
  from process_conversation_returns_last_writer [OF h1 h2 h3 h4 h5 h6, of "''alice''"] m
  have "raised (process_conversation env2 ''alice'' request0) = None
      \<and> last (yielded (process_conversation env2 ''alice'' request0))
          = FinalResponse (json_dumps env2 draft1)"
    by auto
  moreover have "last [ask0, draft0, critique0, draft1, critique1] = critique1" by simp
  ultimately show ?thesis using h1 h2 h3 h5 w m by simp
qed

text \<open>
  C7. When the chat has been built, the debate has run to its end without a failure of a
  library call, and no message of the chat is authored by the Writer, the generator ends
  with \<open>IndexError\<close> and has yielded no final response.
\<close>

theorem no_writer_turn_is_fatal:
  assumes "create_agent_group_chat (load_writer env) (load_critic env) = Inr chat"
    and "load_chat_history conversation_messages = Inr chat_history"
    and "chat_invoke env chat_history = (turns, None)"
    and "snd (status_updates (describe_next_action env) turns []) = None"
    and "\<forall>m \<in> set (get_chat_messages env chat_history). name m \<noteq> Some ''Writer''"
  shows "raised (process_conversation env user_id conversation_messages) = Some IndexError
      \<and> (\<forall>j. FinalResponse j \<notin> set (yielded (process_conversation env user_id conversation_messages)))"
proof -
  have empty: "filter (\<lambda>r. name r = Some ''Writer'') (rev (get_chat_messages env chat_history)) = []"
    using assms(5) by (simp add: filter_empty_conv)
  obtain texts where
    t: "fst (status_updates (describe_next_action env) turns []) = map StatusUpdate texts"
    using status_updates_shape [of "describe_next_action env" turns "[]"] by auto
  have run: "process_conversation env user_id conversation_messages
      = \<lparr>spans = [session_id user_id (now env)],
         yielded = StatusUpdate ''WRITER: Prepares the initial draft'' # map StatusUpdate texts,
         raised = Some IndexError\<rparr>"
    using assms(1-4) empty t by (simp add: process_conversation_def Let_def last_item_def)
  show ?thesis unfolding run by auto
qed

theorem no_writer_turn_is_fatal_witness:
  "create_agent_group_chat (load_writer env1) (load_critic env1)
       = Inr \<lparr>chat_agents = [writer0, critic0],
              selection_strategy = create_selection_strategy [writer0, critic0] critic0,
              termination_strategy = create_termination_strategy [critic0] 6\<rparr>
   \<and> load_chat_history [] = Inr []
   \<and> chat_invoke env1 [] = ([critique0], None)
   \<and> get_chat_messages env1 [] = [critique0]
   \<and> name critique0 \<noteq> Some ''Writer''
   \<and> raised (process_conversation env1 ''alice'' []) = Some IndexError
   \<and> (\<forall>j. FinalResponse j \<notin> set (yielded (process_conversation env1 ''alice'' [])))"
proof -
  have h1: "create_agent_group_chat (load_writer env1) (load_critic env1)
       = Inr \<lparr>chat_agents = [writer0, critic0],
              selection_strategy = create_selection_strategy [writer0, critic0] critic0,
              termination_strategy = create_termination_strategy [critic0] 6\<rparr>"
    by (simp add: create_agent_group_chat_def env1_def env0_def Let_def)
  have h2: "load_chat_history [] = Inr []" by simp
  have h3: "chat_invoke env1 [] = ([critique0], None)" by (simp add: env1_def env0_def)
  have h4: "snd (status_updates (describe_next_action env1) [critique0] []) = None"
    by (simp add: env1_def env0_def)
  have g: "get_chat_messages env1 [] = [critique0]" by (simp add: env1_def env0_def)
  have n: "name critique0 \<noteq> Some ''Writer''" by (simp add: critique0_def)
  have h5: "\<forall>m \<in> set (get_chat_messages env1 []). name m \<noteq> Some ''Writer''"
    using g n by simp
  from no_writer_turn_is_fatal [OF h1 h2 h3 h4 h5, of "''alice''"] h1 h2 h3 g n
  show ?thesis by blast
qed

text \<open>
  C8. On a chat that yields its history newest first, a run that ends normally yields, in
  this order: the fixed status \<open>WRITER: Prepares the initial draft\<close>; one status per
  message the chat yielded; and one final response, the JSON of the most recent turn of
  the history authored by the Writer. So a run of \<open>n\<close> turns has \<open>n + 1\<close> status strings,
  at least one, and the final response is the last event and the only one of its kind.
\<close>

theorem status_stream_shape:
  assumes "load_chat_history conversation_messages = Inr chat_history"
    and "get_chat_messages env chat_history = rev history"
    and "raised (process_conversation env user_id conversation_messages) = None"
  shows "\<exists>texts reply.
      length texts = length (fst (chat_invoke env chat_history))
      \<and> most_recent_producer_turn history = Some reply
      \<and> yielded (process_conversation env user_id conversation_messages)
          = StatusUpdate ''WRITER: Prepares the initial draft'' # map StatusUpdate texts
            @ [FinalResponse (json_dumps env reply)]"
proof -
  from process_conversation_success [OF assms(3)] assms(1) obtain reply where
    s: "snd (status_updates (describe_next_action env) (fst (chat_invoke env chat_history)) []) = None"
    and r: "List.find (\<lambda>r. name r = Some ''Writer'') (get_chat_messages env chat_history) = Some reply"
    and y: "yielded (process_conversation env user_id conversation_messages)
          = StatusUpdate ''WRITER: Prepares the initial draft''
            # fst (status_updates (describe_next_action env) (fst (chat_invoke env chat_history)) [])
            @ [FinalResponse (json_dumps env reply)]"
    by auto
  from status_updates_shape [of "describe_next_action env" "fst (chat_invoke env chat_history)" "[]"] s
  obtain texts where
    t: "fst (status_updates (describe_next_action env) (fst (chat_invoke env chat_history)) [])
          = map StatusUpdate texts"
    and n: "length texts = length (fst (chat_invoke env chat_history))"
    by auto
  have m: "most_recent_producer_turn history = Some reply"
    using r assms(2) by (simp add: most_recent_producer_turn_def)
  show ?thesis
    using n m y t by (intro exI [of _ texts] exI [of _ reply]) simp
qed

text \<open>An instance: two turns, three status strings, and the draft as the final response.\<close>

theorem status_stream_shape_witness:
  "load_chat_history [] = Inr []
   \<and> get_chat_messages env0 [] = rev [draft0, critique0]
   \<and> raised (process_conversation env0 ''alice'' []) = None
   \<and> (\<exists>texts reply.
        length texts = length (fst (chat_invoke env0 []))
        \<and> most_recent_producer_turn [draft0, critique0] = Some reply
        \<and> yielded (process_conversation env0 ''alice'' [])
            = StatusUpdate ''WRITER: Prepares the initial draft'' # map StatusUpdate texts
              @ [FinalResponse (json_dumps env0 reply)])"
proof -
  have h1: "load_chat_history [] = Inr []" by simp
  have h2: "get_chat_messages env0 [] = rev [draft0, critique0]" by (simp add: env0_def)
  have h3: "raised (process_conversation env0 ''alice'' []) = None" by (simp add: env0_run)
  from status_stream_shape [OF h1 h2 h3] h1 h2 h3 show ?thesis by blast
qed

text \<open>
  The claim as the spec states it (exactly one status string per completed turn) fails:
  a run of two turns yields three status strings before the final response.
\<close>

theorem status_stream_counterexample:
  "raised (process_conversation env0 ''alice'' []) = None
   \<and> fst (chat_invoke env0 []) = [draft0, critique0]
   \<and> yielded (process_conversation env0 ''alice'' [])
       = [StatusUpdate ''WRITER: Prepares the initial draft'',
          StatusUpdate ''CRITIC: Reviews the draft'',
          StatusUpdate ''WRITER: Revises the draft'',
          FinalResponse ''{First draft}'']"
  by (simp add: env0_run) (simp add: env0_def)

end
